theory Spec2Isabelle
  imports Main "HOL-Library.Word"
begin

section \<open>The watch application's message handling (main.c)\<close>

text \<open>
  The development embeds the AppMessage side of \<^verbatim>\<open>main.c\<close>: the global state the
  inbox callback reads and writes, the callback itself, the request senders and the
  settings loader. Rendering (windows, menu layers), the transport and the persistent
  store are outside the file; each call into them is recorded as an effect, in the
  order the code makes the calls.
\<close>

subsection \<open>Constants\<close>

text \<open>
  \<^verbatim>\<open>int\<close> and \<^verbatim>\<open>int32_t\<close> are 32-bit two's complement values: a 32-bit word read
  with \<open>sint\<close> and compared with the signed orders \<open><s\<close> and \<open><=s\<close>.
\<close>

type_synonym int32 = "32 word"

definition CMD_LOGIN :: int32 where "CMD_LOGIN = 1"
definition CMD_GET_LISTS :: int32 where "CMD_GET_LISTS = 2"
definition CMD_GET_REMINDERS :: int32 where "CMD_GET_REMINDERS = 3"
definition CMD_COMPLETE_REMINDER :: int32 where "CMD_COMPLETE_REMINDER = 4"

definition STATUS_SUCCESS :: int32 where "STATUS_SUCCESS = 1"
definition STATUS_ERROR :: int32 where "STATUS_ERROR = 0"

definition MAX_LISTS :: int32 where "MAX_LISTS = 20"
definition MAX_REMINDERS :: int32 where "MAX_REMINDERS = 50"

definition PERSIST_KEY_TOKEN :: nat where "PERSIST_KEY_TOKEN = 1"
definition PERSIST_KEY_USERNAME :: nat where "PERSIST_KEY_USERNAME = 2"
definition PERSIST_KEY_APPLE_ID :: nat where "PERSIST_KEY_APPLE_ID = 3"
definition PERSIST_KEY_APPLE_PASSWORD :: nat where "PERSIST_KEY_APPLE_PASSWORD = 4"

subsection \<open>Data\<close>

text \<open>
  A message is a dictionary of tuples found by key. The code reads every key through
  one member of the tuple's value union only (\<^verbatim>\<open>int32\<close> for the command, the status,
  the count, the slot index and the completed flag, \<^verbatim>\<open>cstring\<close> for the rest), so
  the dictionary is a record with one optional field per key, typed by that member:
  \<^verbatim>\<open>dict_find(iterator, KEY_X)\<close> is the field \<open>KEY_X\<close>, and \<open>None\<close> is the null
  pointer. A \<open>string\<close> is the contents of a C string, the characters before its
  terminator.
\<close>

record dictionary =
  KEY_CMD :: "int32 option"
  KEY_ACTION :: "int32 option"
  KEY_USERNAME :: "string option"
  KEY_APPLE_ID :: "string option"
  KEY_APPLE_PASSWORD :: "string option"
  KEY_TOKEN :: "string option"
  KEY_LIST_ID :: "string option"
  KEY_LIST_TITLE :: "string option"
  KEY_REMINDER_ID :: "string option"
  KEY_REMINDER_TITLE :: "string option"
  KEY_REMINDER_COMPLETED :: "int32 option"
  KEY_REMINDER_INDEX :: "int32 option"
  KEY_STATUS :: "int32 option"
  KEY_ERROR :: "string option"
  KEY_COUNT :: "int32 option"

definition empty_dict :: dictionary where
  "empty_dict = \<lparr>KEY_CMD = None, KEY_ACTION = None, KEY_USERNAME = None,
     KEY_APPLE_ID = None, KEY_APPLE_PASSWORD = None, KEY_TOKEN = None,
     KEY_LIST_ID = None, KEY_LIST_TITLE = None, KEY_REMINDER_ID = None,
     KEY_REMINDER_TITLE = None, KEY_REMINDER_COMPLETED = None,
     KEY_REMINDER_INDEX = None, KEY_STATUS = None, KEY_ERROR = None,
     KEY_COUNT = None\<rparr>"

text \<open>
  The two structs. Their fields \<^verbatim>\<open>id\<close> and \<^verbatim>\<open>title\<close> carry the struct's name as a
  prefix here, since both structs use the same field names.
\<close>

record ReminderList =
  list_id_of :: string
  list_title_of :: string

record Reminder =
  reminder_id_of :: string
  reminder_title_of :: string
  reminder_list_id_of :: string
  completed :: bool

text \<open>
  A pointer to an SDK object the application creates: null before the object is
  created, live while it exists, and dangling once the object is destroyed and the
  pointer is left as it was.
\<close>

datatype pointer = NullPtr | LivePtr | DanglingPtr

text \<open>
  The global state. \<open>s_reminders_window\<close> holds whether the pointer of that name is
  non-null, the only thing the callback asks of it. \<open>s_reminders_menu_layer\<close> and
  \<open>s_detail_window\<close> are the two pointers the CompleteReminder case hands to the SDK
  without a test: the menu layer is created when the reminders window loads (line 414)
  and destroyed when it unloads (line 429), where only \<open>s_reminders_window\<close> is set
  back to null (line 431); the detail window is created when a reminder is selected
  (line 391).
\<close>

record app_state =
  s_token :: string
  s_lists :: "ReminderList list"
  s_list_count :: int32
  s_reminders :: "Reminder list"
  s_reminder_count :: int32
  s_current_list_index :: int32
  s_current_reminder_index :: int32
  s_username :: string
  s_apple_id :: string
  s_apple_password :: string
  s_is_logged_in :: bool
  s_reminders_window :: bool
  s_reminders_menu_layer :: pointer
  s_detail_window :: pointer

text \<open>The state of the static initialisers: empty strings, zeroed tables, no selection.\<close>

definition initial_state :: app_state where
  "initial_state = \<lparr>s_token = [],
     s_lists = replicate 20 \<lparr>list_id_of = [], list_title_of = []\<rparr>,
     s_list_count = 0,
     s_reminders = replicate 50 \<lparr>reminder_id_of = [], reminder_title_of = [],
       reminder_list_id_of = [], completed = False\<rparr>,
     s_reminder_count = 0,
     s_current_list_index = - 1,
     s_current_reminder_index = - 1,
     s_username = [], s_apple_id = [], s_apple_password = [],
     s_is_logged_in = False,
     s_reminders_window = False,
     s_reminders_menu_layer = NullPtr,
     s_detail_window = NullPtr\<rparr>"

text \<open>
  Calls into the SDK, in the order made. The removal of the detail window and the reload
  of the reminders menu carry the pointer they are called with.
\<close>

datatype effect =
    AppLogError string
  | ErrorWindowPush string
  | PersistWriteString nat string
  | SettingsWindowRemove
  | DetailWindowRemove pointer
  | MenuReloadLists
  | MenuReloadReminders pointer
  | OutboxSend dictionary

text \<open>
  A store through an array index outside the array's declared bounds has no defined
  result in C; the model stops there with a fault.
\<close>

datatype fault = OutOfBoundsWrite

subsection \<open>Library calls\<close>

text \<open>
  \<^verbatim>\<open>snprintf(dst, n, "%s", src)\<close> leaves in \<^verbatim>\<open>dst\<close> the first \<open>n - 1\<close>
  characters of \<^verbatim>\<open>src\<close>.
\<close>

definition snprintf_s :: "nat \<Rightarrow> string \<Rightarrow> string" where
  "snprintf_s n src = take (n - 1) src"

text \<open>
  The store \<^verbatim>\<open>a[i] = f(a[i])\<close> into an array declared with \<open>n\<close> elements: defined
  for an index from 0 below \<open>n\<close>, a fault for any other. The list that holds the
  array has \<open>n\<close> elements in every state the callback meets (\<open>state_ok\<close> below).
\<close>

definition array_store :: "'a list \<Rightarrow> int32 \<Rightarrow> int32 \<Rightarrow> ('a \<Rightarrow> 'a) \<Rightarrow> fault + 'a list" where
  "array_store a n i f =
     (if 0 <=s i \<and> i <s n then Inr (a[nat (sint i) := f (a ! nat (sint i))])
      else Inl OutOfBoundsWrite)"

subsection \<open>Settings\<close>

text \<open>
  \<^verbatim>\<open>load_settings\<close> over the persistent store, a map from persist keys to strings;
  \<^verbatim>\<open>persist_read_string\<close> copies into a buffer of the given size.
\<close>

definition persist_read_string :: "(nat \<rightharpoonup> string) \<Rightarrow> nat \<Rightarrow> nat \<Rightarrow> string \<Rightarrow> string" where
  "persist_read_string store k n old =
     (case store k of Some v \<Rightarrow> take (n - 1) v | None \<Rightarrow> old)"

definition load_settings :: "(nat \<rightharpoonup> string) \<Rightarrow> app_state \<Rightarrow> app_state" where
  "load_settings store s =
     (let tok = persist_read_string store PERSIST_KEY_TOKEN 256 (s_token s) in
      s\<lparr>s_token := tok,
        s_username := persist_read_string store PERSIST_KEY_USERNAME 64 (s_username s),
        s_apple_id := persist_read_string store PERSIST_KEY_APPLE_ID 64 (s_apple_id s),
        s_apple_password :=
          persist_read_string store PERSIST_KEY_APPLE_PASSWORD 64 (s_apple_password s),
        s_is_logged_in := (0 < length tok)\<rparr>)"

definition save_settings :: "app_state \<Rightarrow> effect list" where
  "save_settings s =
     [PersistWriteString PERSIST_KEY_TOKEN (s_token s),
      PersistWriteString PERSIST_KEY_USERNAME (s_username s),
      PersistWriteString PERSIST_KEY_APPLE_ID (s_apple_id s),
      PersistWriteString PERSIST_KEY_APPLE_PASSWORD (s_apple_password s)]"

subsection \<open>Requests\<close>

text \<open>
  Each sender opens the outbox, writes its fields and sends; the effect carries the
  field set written.
\<close>

definition send_get_lists_request :: "app_state \<Rightarrow> effect list" where
  "send_get_lists_request s =
     [OutboxSend (empty_dict\<lparr>KEY_CMD := Some CMD_GET_LISTS, KEY_TOKEN := Some (s_token s)\<rparr>)]"


subsection \<open>The inbox callback\<close>

text \<open>
  The callback is one function of three blocks, embedded one by one and composed in
  \<open>inbox_received_callback\<close> below: the error branch (lines 124 to 145), the switch on
  the command (lines 147 to 209) and the slot update (lines 212 to 241).
\<close>

definition inbox_error :: "dictionary \<Rightarrow> effect list" where
  "inbox_error iterator =
     (let error = (case KEY_ERROR iterator of Some e \<Rightarrow> e | None \<Rightarrow> ''Unknown error'') in
      [AppLogError (''Error: '' @ error),
       ErrorWindowPush (snprintf_s 128 (''Error: '' @ error))])"

definition inbox_switch ::
    "dictionary \<Rightarrow> int32 \<Rightarrow> int32 \<Rightarrow> app_state \<Rightarrow> fault + app_state \<times> effect list" where
  "inbox_switch iterator cmd status s =
     (if cmd = CMD_LOGIN then
        (case KEY_TOKEN iterator of
           Some tok \<Rightarrow>
             (let s1 = s\<lparr>s_token := snprintf_s 256 tok, s_is_logged_in := True\<rparr> in
              Inr (s1, save_settings s1 @ [SettingsWindowRemove] @ send_get_lists_request s1))
         | None \<Rightarrow> Inr (s, []))
      else if cmd = CMD_GET_LISTS then
        (case KEY_COUNT iterator of
           Some c \<Rightarrow>
             Inr (s\<lparr>s_list_count := (if MAX_LISTS <s c then MAX_LISTS else c)\<rparr>,
                  [MenuReloadLists])
         | None \<Rightarrow> Inr (s, []))
      else if cmd = CMD_GET_REMINDERS then
        (case KEY_COUNT iterator of
           Some c \<Rightarrow>
             Inr (s\<lparr>s_reminder_count := (if MAX_REMINDERS <s c then MAX_REMINDERS else c)\<rparr>,
                  if s_reminders_window s then [MenuReloadReminders (s_reminders_menu_layer s)]
                  else [])
         | None \<Rightarrow> Inr (s, []))
      else if cmd = CMD_COMPLETE_REMINDER then
        (if status = STATUS_SUCCESS then
           (if 0 <=s s_current_reminder_index s
               \<and> s_current_reminder_index s <s s_reminder_count s then
              (case array_store (s_reminders s) MAX_REMINDERS (s_current_reminder_index s)
                      (\<lambda>r. r\<lparr>completed := True\<rparr>) of
                 Inl f \<Rightarrow> Inl f
               | Inr a \<Rightarrow>
                   Inr (s\<lparr>s_reminders := a\<rparr>,
                        [DetailWindowRemove (s_detail_window s),
                         MenuReloadReminders (s_reminders_menu_layer s)]))
            else Inr (s, [DetailWindowRemove (s_detail_window s),
                          MenuReloadReminders (s_reminders_menu_layer s)]))
         else Inr (s, []))
      else Inr (s, []))"

definition inbox_slot :: "dictionary \<Rightarrow> app_state \<Rightarrow> fault + app_state \<times> effect list" where
  "inbox_slot iterator s =
     (case KEY_REMINDER_INDEX iterator of
        None \<Rightarrow> Inr (s, [])
      | Some index \<Rightarrow>
          if KEY_LIST_ID iterator \<noteq> None \<and> KEY_LIST_TITLE iterator \<noteq> None
             \<and> index <s MAX_LISTS then
            (case array_store (s_lists s) MAX_LISTS index
                    (\<lambda>l. l\<lparr>list_id_of := snprintf_s 64 (the (KEY_LIST_ID iterator)),
                           list_title_of := snprintf_s 64 (the (KEY_LIST_TITLE iterator))\<rparr>) of
               Inl f \<Rightarrow> Inl f
             | Inr a \<Rightarrow> Inr (s\<lparr>s_lists := a\<rparr>, [MenuReloadLists]))
          else if KEY_REMINDER_ID iterator \<noteq> None \<and> KEY_REMINDER_TITLE iterator \<noteq> None
             \<and> index <s MAX_REMINDERS then
            (case array_store (s_reminders s) MAX_REMINDERS index
                    (\<lambda>r. r\<lparr>reminder_id_of := snprintf_s 64 (the (KEY_REMINDER_ID iterator)),
                           reminder_title_of :=
                             snprintf_s 128 (the (KEY_REMINDER_TITLE iterator)),
                           reminder_list_id_of :=
                             (case KEY_LIST_ID iterator of
                                Some lid \<Rightarrow> snprintf_s 64 lid
                              | None \<Rightarrow> reminder_list_id_of r),
                           completed :=
                             (case KEY_REMINDER_COMPLETED iterator of
                                Some c \<Rightarrow> c \<noteq> 0
                              | None \<Rightarrow> False)\<rparr>) of
               Inl f \<Rightarrow> Inl f
             | Inr a \<Rightarrow>
                 Inr (s\<lparr>s_reminders := a\<rparr>,
                      if s_reminders_window s
                      then [MenuReloadReminders (s_reminders_menu_layer s)]
                      else []))
          else Inr (s, []))"

definition inbox_received_callback ::
    "dictionary \<Rightarrow> app_state \<Rightarrow> fault + app_state \<times> effect list" where
  "inbox_received_callback iterator s =
     (case KEY_CMD iterator of
        None \<Rightarrow> Inr (s, [])
      | Some cmd \<Rightarrow>
          (let status = (case KEY_STATUS iterator of Some v \<Rightarrow> v | None \<Rightarrow> STATUS_ERROR) in
           if status = STATUS_ERROR then Inr (s, inbox_error iterator)
           else
             (case inbox_switch iterator cmd status s of
                Inl f \<Rightarrow> Inl f
              | Inr (s1, es1) \<Rightarrow>
                  (case inbox_slot iterator s1 of
                     Inl f \<Rightarrow> Inl f
                   | Inr (s2, es2) \<Rightarrow> Inr (s2, es1 @ es2)))))"

subsection \<open>States and messages\<close>

text \<open>
  The tables have their declared sizes, and the stored reminders count, which only the
  clamped assignment of the switch writes, is within the reminders capacity. The
  initial state is such a state, and the callback and the settings loader keep it one
  (\<open>state_ok_initial\<close>, \<open>state_ok_callback\<close> and \<open>state_ok_load_settings\<close> below).
\<close>

definition state_ok :: "app_state \<Rightarrow> bool" where
  "state_ok s \<longleftrightarrow> length (s_lists s) = nat (sint MAX_LISTS)
     \<and> length (s_reminders s) = nat (sint MAX_REMINDERS)
     \<and> s_reminder_count s <=s MAX_REMINDERS"

text \<open>The slot index of a message, when it has one, is not negative.\<close>

definition nonnegative_slot :: "dictionary \<Rightarrow> bool" where
  "nonnegative_slot iterator =
     (case KEY_REMINDER_INDEX iterator of None \<Rightarrow> True | Some index \<Rightarrow> 0 <=s index)"

text \<open>The test of line 199: a reminder is selected, below the stored count.\<close>

definition selection_active :: "app_state \<Rightarrow> bool" where
  "selection_active s \<longleftrightarrow>
     0 <=s s_current_reminder_index s \<and> s_current_reminder_index s <s s_reminder_count s"

text \<open>A state after a listing: three lists, two reminders of the third list.\<close>

definition example_state :: app_state where
  "example_state = initial_state\<lparr>s_token := ''abc123'', s_is_logged_in := True,
     s_lists := (s_lists initial_state)
       [0 := \<lparr>list_id_of = ''L1'', list_title_of = ''Home''\<rparr>,
        1 := \<lparr>list_id_of = ''L2'', list_title_of = ''Work''\<rparr>,
        2 := \<lparr>list_id_of = ''L3'', list_title_of = ''Shop''\<rparr>],
     s_list_count := 3,
     s_reminders := (s_reminders initial_state)
       [0 := \<lparr>reminder_id_of = ''R1'', reminder_title_of = ''Milk'',
               reminder_list_id_of = ''L3'', completed = False\<rparr>,
        1 := \<lparr>reminder_id_of = ''R2'', reminder_title_of = ''Eggs'',
               reminder_list_id_of = ''L3'', completed = False\<rparr>],
     s_reminder_count := 2,
     s_current_list_index := 2\<rparr>"


text \<open>A GetLists outcome reporting \<open>c\<close> lists.\<close>

definition lists_count_message :: "int32 \<Rightarrow> dictionary" where
  "lists_count_message c = empty_dict\<lparr>KEY_CMD := Some CMD_GET_LISTS,
     KEY_STATUS := Some STATUS_SUCCESS, KEY_COUNT := Some c\<rparr>"

text \<open>A GetReminders outcome reporting \<open>c\<close> reminders.\<close>

definition reminders_count_message :: "int32 \<Rightarrow> dictionary" where
  "reminders_count_message c = empty_dict\<lparr>KEY_CMD := Some CMD_GET_REMINDERS,
     KEY_STATUS := Some STATUS_SUCCESS, KEY_COUNT := Some c\<rparr>"

text \<open>
  The text the error branch shows after its prefix: the error field, or the default.
\<close>

definition error_text :: "dictionary \<Rightarrow> string" where
  "error_text iterator = (case KEY_ERROR iterator of Some e \<Rightarrow> e | None \<Rightarrow> ''Unknown error'')"

text \<open>
  Messages: a list fragment and a reminder fragment for a slot, with no command and no
  status field; the same message with a command and a status added; a Login outcome
  with a token; a CompleteReminder outcome.
\<close>

definition list_fragment :: "int32 \<Rightarrow> string \<Rightarrow> string \<Rightarrow> dictionary" where
  "list_fragment index lid title = empty_dict\<lparr>KEY_REMINDER_INDEX := Some index,
     KEY_LIST_ID := Some lid, KEY_LIST_TITLE := Some title\<rparr>"

definition reminder_fragment :: "int32 \<Rightarrow> string \<Rightarrow> string \<Rightarrow> string \<Rightarrow> dictionary" where
  "reminder_fragment index rid title lid = empty_dict\<lparr>KEY_REMINDER_INDEX := Some index,
     KEY_REMINDER_ID := Some rid, KEY_REMINDER_TITLE := Some title, KEY_LIST_ID := Some lid\<rparr>"

definition with_outcome :: "int32 \<Rightarrow> int32 \<Rightarrow> dictionary \<Rightarrow> dictionary" where
  "with_outcome cmd status iterator = iterator\<lparr>KEY_CMD := Some cmd, KEY_STATUS := Some status\<rparr>"

definition login_message :: "string \<Rightarrow> dictionary" where
  "login_message tok = empty_dict\<lparr>KEY_CMD := Some CMD_LOGIN,
     KEY_STATUS := Some STATUS_SUCCESS, KEY_TOKEN := Some tok\<rparr>"


text \<open>Strings one character longer than the buffers that receive them.\<close>

definition long_token :: string where
  "long_token = replicate 256 (CHR ''x'')"


section \<open>Properties\<close>

subsection \<open>The blocks of the callback\<close>

lemmas consts_defs = CMD_LOGIN_def CMD_GET_LISTS_def CMD_GET_REMINDERS_def CMD_COMPLETE_REMINDER_def
  STATUS_SUCCESS_def STATUS_ERROR_def MAX_LISTS_def MAX_REMINDERS_def

lemma inbox_slot_no_index:
  "KEY_REMINDER_INDEX m = None \<Longrightarrow> inbox_slot m s = Inr (s, [])"
  by (simp add: inbox_slot_def)

lemma inbox_slot_frame:
  assumes "inbox_slot m s = Inr (s', es)"
  shows "s_token s' = s_token s \<and> s_is_logged_in s' = s_is_logged_in s
       \<and> s_list_count s' = s_list_count s \<and> s_reminder_count s' = s_reminder_count s
       \<and> s_current_list_index s' = s_current_list_index s
       \<and> s_current_reminder_index s' = s_current_reminder_index s"
  using assms
  by (auto simp: inbox_slot_def array_store_def split: option.splits if_splits sum.splits)

lemma inbox_slot_returns:
  assumes "nonnegative_slot m"
  shows "\<exists>s' es. inbox_slot m s = Inr (s', es)"
  using assms
  by (auto simp: inbox_slot_def array_store_def nonnegative_slot_def split: option.splits)

lemma inbox_slot_lengths:
  assumes "inbox_slot m s = Inr (s', es)"
  shows "length (s_lists s') = length (s_lists s) \<and> length (s_reminders s') = length (s_reminders s)"
  using assms
  by (auto simp: inbox_slot_def array_store_def split: option.splits if_splits sum.splits)

lemma index_in_table:
  fixes i :: int32
  assumes "0 <=s i" and "i <s n"
  shows "nat (sint i) < nat (sint n)"
  using assms by (simp add: word_sle_eq word_sless_alt)

lemma completed_keeps_list_id:
  "reminder_list_id_of (xs[n := (xs ! n)\<lparr>completed := True\<rparr>] ! k) = reminder_list_id_of (xs ! k)"
proof (cases "n < length xs")
  case True
  then show ?thesis by (cases "k = n") simp_all
next
  case False
  then have "xs[n := (xs ! n)\<lparr>completed := True\<rparr>] = xs"
    by (intro list_update_beyond) simp
  then show ?thesis by simp
qed

text \<open>The switch: what it returns for every command, on a state within capacity.\<close>

lemma inbox_switch_returns:
  assumes "s_reminder_count s <=s MAX_REMINDERS"
  shows "\<exists>s1 es1. inbox_switch m c st s = Inr (s1, es1)
           \<and> s_lists s1 = s_lists s
           \<and> length (s_reminders s1) = length (s_reminders s)
           \<and> s_reminders_window s1 = s_reminders_window s
           \<and> s_reminder_count s1 <=s MAX_REMINDERS
           \<and> (\<forall>k. reminder_list_id_of (s_reminders s1 ! k) = reminder_list_id_of (s_reminders s ! k))"
proof (cases "c = CMD_COMPLETE_REMINDER")
  case False
  then show ?thesis using assms
    by (auto simp: inbox_switch_def consts_defs Let_def word_sle_eq word_sless_alt
        split: option.splits)
next
  case True
  show ?thesis
  proof (cases "st = STATUS_SUCCESS \<and> selection_active s")
    case False
    with True show ?thesis using assms
      by (auto simp: inbox_switch_def selection_active_def consts_defs)
  next
    case act: True
    let ?n = "nat (sint (s_current_reminder_index s))"
    let ?a = "(s_reminders s)[?n := (s_reminders s ! ?n)\<lparr>completed := True\<rparr>]"
    from act assms have "s_current_reminder_index s <s MAX_REMINDERS"
      by (simp add: selection_active_def word_sle_eq word_sless_alt)
    with act have st: "array_store (s_reminders s) MAX_REMINDERS (s_current_reminder_index s)
        (\<lambda>r. r\<lparr>completed := True\<rparr>) = Inr ?a"
      by (simp add: array_store_def selection_active_def)
    have ids: "reminder_list_id_of (?a ! k) = reminder_list_id_of (s_reminders s ! k)" for k
      by (rule completed_keeps_list_id)
    from True act st have "inbox_switch m c st s
        = Inr (s\<lparr>s_reminders := ?a\<rparr>,
               [DetailWindowRemove (s_detail_window s),
                MenuReloadReminders (s_reminders_menu_layer s)])"
      by (simp add: inbox_switch_def selection_active_def consts_defs)
    with ids assms show ?thesis by simp
  qed
qed

lemma list_fragment_result:
  assumes "KEY_REMINDER_INDEX m = Some i" and "0 <=s i" and "i <s MAX_LISTS"
    and "KEY_LIST_ID m = Some a" and "KEY_LIST_TITLE m = Some b"
    and "length (s_lists s) = nat (sint MAX_LISTS)"
  shows "\<exists>s' es. inbox_slot m s = Inr (s', es)
           \<and> s_lists s' ! nat (sint i) = \<lparr>list_id_of = take 63 a, list_title_of = take 63 b\<rparr>"
  using assms index_in_table [OF assms(2,3)]
  by (simp add: inbox_slot_def array_store_def snprintf_s_def)

lemma reminder_fragment_result:
  assumes "KEY_REMINDER_INDEX m = Some i" and "0 <=s i" and "i <s MAX_REMINDERS"
    and "KEY_REMINDER_ID m = Some a" and "KEY_REMINDER_TITLE m = Some b"
    and "KEY_LIST_ID m = None \<or> KEY_LIST_TITLE m = None \<or> MAX_LISTS <=s i"
    and "length (s_reminders s) = nat (sint MAX_REMINDERS)"
  shows "\<exists>s' es. inbox_slot m s = Inr (s', es)
           \<and> s_reminders s' ! nat (sint i) =
               \<lparr>reminder_id_of = take 63 a, reminder_title_of = take 127 b,
                reminder_list_id_of =
                  (case KEY_LIST_ID m of Some l \<Rightarrow> take 63 l
                   | None \<Rightarrow> reminder_list_id_of (s_reminders s ! nat (sint i))),
                completed = (case KEY_REMINDER_COMPLETED m of Some v \<Rightarrow> v \<noteq> 0 | None \<Rightarrow> False)\<rparr>"
proof -
  from assms(6) have "\<not> (KEY_LIST_ID m \<noteq> None \<and> KEY_LIST_TITLE m \<noteq> None \<and> i <s MAX_LISTS)"
    by (auto simp: word_sle_eq word_sless_alt)
  with assms(1-5,7) index_in_table [OF assms(2,3)] show ?thesis
    by (cases "s_reminders s ! nat (sint i)")
       (auto simp: inbox_slot_def array_store_def snprintf_s_def split: option.splits)
qed

text \<open>Capacity is an invariant of the callback, and the settings loader does not touch it.\<close>

lemma state_ok_initial: "state_ok initial_state"
  by (simp add: state_ok_def initial_state_def consts_defs word_sle_eq)

lemma state_ok_callback:
  assumes "state_ok s" and "inbox_received_callback m s = Inr (s', es)"
  shows "state_ok s'"
proof (cases "KEY_CMD m")
  case None
  with assms show ?thesis by (simp add: inbox_received_callback_def)
next
  case (Some c)
  show ?thesis
  proof (cases "KEY_STATUS m = None \<or> KEY_STATUS m = Some STATUS_ERROR")
    case True
    with Some assms show ?thesis
      by (auto simp: inbox_received_callback_def)
  next
    case False
    then obtain st where st: "KEY_STATUS m = Some st" "st \<noteq> STATUS_ERROR" by auto
    from assms(1) have cap: "s_reminder_count s <=s MAX_REMINDERS" by (simp add: state_ok_def)
    from inbox_switch_returns [OF cap, of m c st] obtain s1 es1 where
      sw: "inbox_switch m c st s = Inr (s1, es1)" and
      s1: "s_lists s1 = s_lists s" "length (s_reminders s1) = length (s_reminders s)"
        "s_reminder_count s1 <=s MAX_REMINDERS"
      by blast
    from assms(2) Some st sw obtain es2 where sl: "inbox_slot m s1 = Inr (s', es2)"
      by (auto simp: inbox_received_callback_def split: sum.splits)
    from inbox_slot_frame [OF sl] inbox_slot_lengths [OF sl] s1 assms(1)
    show ?thesis by (simp add: state_ok_def)
  qed
qed

lemma state_ok_load_settings: "state_ok (load_settings store s) = state_ok s"
  by (simp add: state_ok_def load_settings_def Let_def)

lemma example_state_ok: "state_ok example_state"
  by (simp add: state_ok_def example_state_def initial_state_def consts_defs word_sle_eq)

text \<open>
  The Login case of the switch, with the calls it makes written out.
\<close>

lemma login_switch:
  assumes "KEY_TOKEN m = Some tok"
  shows "inbox_switch m CMD_LOGIN st s =
           Inr (s\<lparr>s_token := take 255 tok, s_is_logged_in := True\<rparr>,
                [PersistWriteString PERSIST_KEY_TOKEN (take 255 tok),
                 PersistWriteString PERSIST_KEY_USERNAME (s_username s),
                 PersistWriteString PERSIST_KEY_APPLE_ID (s_apple_id s),
                 PersistWriteString PERSIST_KEY_APPLE_PASSWORD (s_apple_password s),
                 SettingsWindowRemove,
                 OutboxSend (empty_dict\<lparr>KEY_CMD := Some CMD_GET_LISTS,
                   KEY_TOKEN := Some (take 255 tok)\<rparr>)])"
  using assms
  by (simp add: inbox_switch_def save_settings_def send_get_lists_request_def snprintf_s_def
      Let_def)

text \<open>
  A fragment in a message that passes the command and status tests: the callback is the
  slot update run on the switch's result, and the slot holds the fragment afterwards.
\<close>

lemma callback_after_switch:
  assumes "KEY_CMD m = Some c" and "KEY_STATUS m = Some st" and "st \<noteq> STATUS_ERROR"
    and "state_ok s"
  shows "\<exists>s1 es1. inbox_received_callback m s =
             (case inbox_slot m s1 of Inl f \<Rightarrow> Inl f | Inr (s2, es2) \<Rightarrow> Inr (s2, es1 @ es2))
           \<and> length (s_lists s1) = nat (sint MAX_LISTS)
           \<and> length (s_reminders s1) = nat (sint MAX_REMINDERS)
           \<and> (\<forall>k. reminder_list_id_of (s_reminders s1 ! k) = reminder_list_id_of (s_reminders s ! k))"
proof -
  from assms(4) have cap: "s_reminder_count s <=s MAX_REMINDERS"
    and len: "length (s_lists s) = nat (sint MAX_LISTS)"
      "length (s_reminders s) = nat (sint MAX_REMINDERS)"
    by (simp_all add: state_ok_def)
  from inbox_switch_returns [OF cap, of m c st] obtain s1 es1 where
    sw: "inbox_switch m c st s = Inr (s1, es1)" and
    s1: "s_lists s1 = s_lists s" "length (s_reminders s1) = length (s_reminders s)" and
    ids: "\<forall>k. reminder_list_id_of (s_reminders s1 ! k) = reminder_list_id_of (s_reminders s ! k)"
    by blast
  have "inbox_received_callback m s =
      (case inbox_slot m s1 of Inl f \<Rightarrow> Inl f | Inr (s2, es2) \<Rightarrow> Inr (s2, es1 @ es2))"
    using assms(1-3) sw by (simp add: inbox_received_callback_def)
  with s1 len ids show ?thesis by auto
qed

lemma callback_list_fragment:
  assumes "KEY_CMD m = Some c" and "KEY_STATUS m = Some st" and "st \<noteq> STATUS_ERROR"
    and "state_ok s"
    and "KEY_REMINDER_INDEX m = Some i" and "0 <=s i" and "i <s MAX_LISTS"
    and "KEY_LIST_ID m = Some a" and "KEY_LIST_TITLE m = Some b"
  shows "\<exists>s' es. inbox_received_callback m s = Inr (s', es)
           \<and> s_lists s' ! nat (sint i) = \<lparr>list_id_of = take 63 a, list_title_of = take 63 b\<rparr>"
proof -
  from callback_after_switch [OF assms(1-4)] obtain s1 es1 where
    run: "inbox_received_callback m s =
      (case inbox_slot m s1 of Inl f \<Rightarrow> Inl f | Inr (s2, es2) \<Rightarrow> Inr (s2, es1 @ es2))"
    and len: "length (s_lists s1) = nat (sint MAX_LISTS)"
    by blast
  from list_fragment_result [OF assms(5-9) len] run show ?thesis by auto
qed

lemma callback_reminder_fragment:
  assumes "KEY_CMD m = Some c" and "KEY_STATUS m = Some st" and "st \<noteq> STATUS_ERROR"
    and "state_ok s"
    and "KEY_REMINDER_INDEX m = Some i" and "0 <=s i" and "i <s MAX_REMINDERS"
    and "KEY_REMINDER_ID m = Some a" and "KEY_REMINDER_TITLE m = Some b"
    and "KEY_LIST_ID m = None \<or> KEY_LIST_TITLE m = None \<or> MAX_LISTS <=s i"
  shows "\<exists>s' es. inbox_received_callback m s = Inr (s', es)
           \<and> s_reminders s' ! nat (sint i) =
               \<lparr>reminder_id_of = take 63 a, reminder_title_of = take 127 b,
                reminder_list_id_of =
                  (case KEY_LIST_ID m of Some l \<Rightarrow> take 63 l
                   | None \<Rightarrow> reminder_list_id_of (s_reminders s ! nat (sint i))),
                completed =
                  (case KEY_REMINDER_COMPLETED m of Some v \<Rightarrow> v \<noteq> 0 | None \<Rightarrow> False)\<rparr>"
proof -
  from callback_after_switch [OF assms(1-4)] obtain s1 es1 where
    run: "inbox_received_callback m s =
      (case inbox_slot m s1 of Inl f \<Rightarrow> Inl f | Inr (s2, es2) \<Rightarrow> Inr (s2, es1 @ es2))"
    and len: "length (s_reminders s1) = nat (sint MAX_REMINDERS)"
    and ids: "\<And>k. reminder_list_id_of (s_reminders s1 ! k) = reminder_list_id_of (s_reminders s ! k)"
    by blast
  from reminder_fragment_result [OF assms(5-10) len] run ids show ?thesis
    by (auto split: option.splits)
qed

subsection \<open>The properties of the specification\<close>

lemmas callback_defs = inbox_received_callback_def inbox_switch_def inbox_slot_def
  inbox_error_def array_store_def snprintf_s_def save_settings_def send_get_lists_request_def
  Let_def

text \<open>
  C1 (as amended). A message whose status field is present and equals ERROR leaves the
  whole state as it was: token, logged-in flag, both tables and both counts, also when
  the message carries a list or reminder fragment. When the message has a command
  field, the error text (its error field, or the default) is logged and shown with the
  prefix, the shown text cut to 127 characters, and nothing else of the message is
  read; when it has no command field, the callback returns at once and shows nothing.
\<close>

theorem error_status_no_mutation:
  assumes "KEY_STATUS m = Some STATUS_ERROR"
  shows "inbox_received_callback m s =
           Inr (s, if KEY_CMD m = None then []
                   else [AppLogError (''Error: '' @ error_text m),
                         ErrorWindowPush (take 127 (''Error: '' @ error_text m))])"
  using assms
  by (simp add: inbox_received_callback_def inbox_error_def error_text_def snprintf_s_def Let_def
      split: option.splits)

text \<open>
  An instance: a GetLists outcome with status ERROR that also carries a list fragment
  for slot 0.
\<close>

theorem error_status_no_mutation_witness:
  "KEY_STATUS (with_outcome CMD_GET_LISTS STATUS_ERROR (list_fragment 0 ''L9'' ''Errands''))
     = Some STATUS_ERROR
   \<and> inbox_received_callback
       (with_outcome CMD_GET_LISTS STATUS_ERROR (list_fragment 0 ''L9'' ''Errands'')) example_state
     = Inr (example_state,
            [AppLogError ''Error: Unknown error'', ErrorWindowPush ''Error: Unknown error''])"
proof -
  let ?m = "with_outcome CMD_GET_LISTS STATUS_ERROR (list_fragment 0 ''L9'' ''Errands'')"
  have h: "KEY_STATUS ?m = Some STATUS_ERROR" by (simp add: list_fragment_def with_outcome_def empty_dict_def)
  have c: "KEY_CMD ?m \<noteq> None" "error_text ?m = ''Unknown error''"
    by (simp_all add: list_fragment_def with_outcome_def empty_dict_def error_text_def)
  from error_status_no_mutation [OF h, of example_state] h c show ?thesis by simp
qed

text \<open>
  As first stated the claim has the error text surfaced for every message with status
  ERROR. A message with status ERROR and an error text but no command field surfaces
  nothing.
\<close>

theorem error_status_without_command_silent:
  "inbox_received_callback (empty_dict\<lparr>KEY_STATUS := Some STATUS_ERROR,
       KEY_ERROR := Some ''Session expired''\<rparr>) example_state
     = Inr (example_state, [])"
  by (simp add: inbox_received_callback_def empty_dict_def)

text \<open>
  C2 (as amended). A message that carries a command field of any value, a status field
  other than ERROR and a slot index \<open>i\<close> that is not negative, received in a state
  within capacity: with a list id and a list title and \<open>i\<close> below MAX_LISTS, slot
  \<open>i\<close> of the lists table holds afterwards the id and the title, each cut to 63
  characters; with a reminder id and a reminder title and \<open>i\<close> below MAX_REMINDERS,
  and the list branch not taken (no list id, or no list title, or \<open>i\<close> at or above
  MAX_LISTS), slot \<open>i\<close> of the reminders table holds the id cut to 63 and the title
  cut to 127 characters, the list id cut to 63 characters when the message has one and
  the slot's old list id otherwise, and the completed flag of the message, false when
  absent. A message with no command field is dropped whole, whatever else it carries.
\<close>

theorem fragment_written:
  assumes "KEY_CMD m = Some c" and "KEY_STATUS m = Some st" and "st \<noteq> STATUS_ERROR"
    and "KEY_REMINDER_INDEX m = Some i" and "0 <=s i" and "state_ok s"
  shows "(KEY_LIST_ID m = Some a \<and> KEY_LIST_TITLE m = Some b \<and> i <s MAX_LISTS \<longrightarrow>
            (\<exists>s' es. inbox_received_callback m s = Inr (s', es)
               \<and> s_lists s' ! nat (sint i) = \<lparr>list_id_of = take 63 a, list_title_of = take 63 b\<rparr>))
       \<and> (KEY_REMINDER_ID m = Some a \<and> KEY_REMINDER_TITLE m = Some b \<and> i <s MAX_REMINDERS
            \<and> (KEY_LIST_ID m = None \<or> KEY_LIST_TITLE m = None \<or> MAX_LISTS <=s i) \<longrightarrow>
            (\<exists>s' es. inbox_received_callback m s = Inr (s', es)
               \<and> s_reminders s' ! nat (sint i) =
                   \<lparr>reminder_id_of = take 63 a, reminder_title_of = take 127 b,
                    reminder_list_id_of =
                      (case KEY_LIST_ID m of Some l \<Rightarrow> take 63 l
                       | None \<Rightarrow> reminder_list_id_of (s_reminders s ! nat (sint i))),
                    completed =
                      (case KEY_REMINDER_COMPLETED m of Some v \<Rightarrow> v \<noteq> 0 | None \<Rightarrow> False)\<rparr>))
       \<and> (KEY_CMD m0 = None \<longrightarrow> inbox_received_callback m0 s = Inr (s, []))"
proof -
  have "KEY_CMD m0 = None \<longrightarrow> inbox_received_callback m0 s = Inr (s, [])"
    by (simp add: inbox_received_callback_def)
  with callback_list_fragment [OF assms(1-3,6,4,5), of a b]
    callback_reminder_fragment [OF assms(1-3,6,4,5), of a b]
  show ?thesis by blast
qed

text \<open>
  An instance: a list fragment for slot 1 under a Login outcome, a reminder fragment
  for slot 1 under a GetLists outcome, and the list fragment with no command field.
\<close>

theorem fragment_written_witness:
  "KEY_CMD (with_outcome CMD_LOGIN STATUS_SUCCESS (list_fragment 1 ''L9'' ''Errands'')) = Some CMD_LOGIN
   \<and> KEY_STATUS (with_outcome CMD_LOGIN STATUS_SUCCESS (list_fragment 1 ''L9'' ''Errands''))
       = Some STATUS_SUCCESS
   \<and> STATUS_SUCCESS \<noteq> STATUS_ERROR
   \<and> KEY_REMINDER_INDEX (with_outcome CMD_LOGIN STATUS_SUCCESS (list_fragment 1 ''L9'' ''Errands''))
       = Some 1
   \<and> 0 <=s (1 :: int32) \<and> (1 :: int32) <s MAX_LISTS \<and> state_ok example_state
   \<and> (\<exists>s' es. inbox_received_callback
          (with_outcome CMD_LOGIN STATUS_SUCCESS (list_fragment 1 ''L9'' ''Errands'')) example_state
          = Inr (s', es)
        \<and> s_lists s' ! 1 = \<lparr>list_id_of = ''L9'', list_title_of = ''Errands''\<rparr>)
   \<and> (\<exists>s' es. inbox_received_callback
          (with_outcome CMD_GET_LISTS STATUS_SUCCESS (reminder_fragment 1 ''R7'' ''Bread'' ''L3''))
          example_state = Inr (s', es)
        \<and> s_reminders s' ! 1 = \<lparr>reminder_id_of = ''R7'', reminder_title_of = ''Bread'',
             reminder_list_id_of = ''L3'', completed = False\<rparr>)
   \<and> KEY_CMD (list_fragment 1 ''L9'' ''Errands'') = None
   \<and> inbox_received_callback (list_fragment 1 ''L9'' ''Errands'') example_state
       = Inr (example_state, [])"
proof -
  let ?l = "with_outcome CMD_LOGIN STATUS_SUCCESS (list_fragment 1 ''L9'' ''Errands'')"
  let ?r = "with_outcome CMD_GET_LISTS STATUS_SUCCESS (reminder_fragment 1 ''R7'' ''Bread'' ''L3'')"
  have hl: "KEY_CMD ?l = Some CMD_LOGIN" "KEY_STATUS ?l = Some STATUS_SUCCESS"
    "STATUS_SUCCESS \<noteq> STATUS_ERROR" "KEY_REMINDER_INDEX ?l = Some 1" "0 <=s (1 :: int32)"
    by (simp_all add: list_fragment_def reminder_fragment_def with_outcome_def empty_dict_def consts_defs word_sle_eq)
  have hr: "KEY_CMD ?r = Some CMD_GET_LISTS" "KEY_STATUS ?r = Some STATUS_SUCCESS"
    "STATUS_SUCCESS \<noteq> STATUS_ERROR" "KEY_REMINDER_INDEX ?r = Some 1" "0 <=s (1 :: int32)"
    by (simp_all add: list_fragment_def reminder_fragment_def with_outcome_def empty_dict_def consts_defs word_sle_eq)
  have pl: "KEY_LIST_ID ?l = Some ''L9'' \<and> KEY_LIST_TITLE ?l = Some ''Errands''
      \<and> (1 :: int32) <s MAX_LISTS"
    by (simp add: list_fragment_def reminder_fragment_def with_outcome_def empty_dict_def consts_defs word_sless_alt)
  have pr: "KEY_REMINDER_ID ?r = Some ''R7'' \<and> KEY_REMINDER_TITLE ?r = Some ''Bread''
      \<and> (1 :: int32) <s MAX_REMINDERS
      \<and> (KEY_LIST_ID ?r = None \<or> KEY_LIST_TITLE ?r = None \<or> MAX_LISTS <=s (1 :: int32))"
    by (simp add: list_fragment_def reminder_fragment_def with_outcome_def empty_dict_def consts_defs word_sless_alt)
  have more: "KEY_LIST_ID ?r = Some ''L3''" "KEY_REMINDER_COMPLETED ?r = None"
    by (simp_all add: list_fragment_def reminder_fragment_def with_outcome_def empty_dict_def)
  from fragment_written [OF hl example_state_ok, of "''L9''" "''Errands''",
      THEN conjunct1, THEN mp, OF pl]
  have a: "\<exists>s' es. inbox_received_callback ?l example_state = Inr (s', es)
        \<and> s_lists s' ! 1 = \<lparr>list_id_of = ''L9'', list_title_of = ''Errands''\<rparr>"
    by simp
  from fragment_written [OF hr example_state_ok, of "''R7''" "''Bread''",
      THEN conjunct2, THEN conjunct1, THEN mp, OF pr] more
  have b: "\<exists>s' es. inbox_received_callback ?r example_state = Inr (s', es)
        \<and> s_reminders s' ! 1 = \<lparr>reminder_id_of = ''R7'', reminder_title_of = ''Bread'',
             reminder_list_id_of = ''L3'', completed = False\<rparr>"
    by simp
  have n: "KEY_CMD (list_fragment 1 ''L9'' ''Errands'') = None"
    by (simp add: list_fragment_def reminder_fragment_def with_outcome_def empty_dict_def)
  from fragment_written [OF hl example_state_ok, of _ _ "list_fragment 1 ''L9'' ''Errands''",
      THEN conjunct2, THEN conjunct2, THEN mp, OF n]
  have d: "inbox_received_callback (list_fragment 1 ''L9'' ''Errands'') example_state
       = Inr (example_state, [])" .
  from hl pl example_state_ok a b n d show ?thesis by simp
qed

text \<open>
  As first stated the claim has the slot written also when the message has no command
  field. A list fragment for slot 0 with no command field changes nothing: slot 0 keeps
  its list.
\<close>

theorem fragment_without_command_dropped:
  "inbox_received_callback (list_fragment 0 ''L9'' ''Errands'') example_state
     = Inr (example_state, [])
   \<and> s_lists example_state ! 0 = \<lparr>list_id_of = ''L1'', list_title_of = ''Home''\<rparr>"
  by (simp add: inbox_received_callback_def list_fragment_def empty_dict_def example_state_def initial_state_def)

text \<open>
  C3. A Login outcome with status SUCCESS whose token field is present and empty, on
  the initial state: the callback sets the logged-in flag although the stored token is
  empty, where \<open>load_settings\<close> on a stored empty token leaves the flag false.
\<close>

theorem login_empty_token_logged_in:
  "inbox_received_callback (login_message '''') initial_state
     = Inr (initial_state\<lparr>s_token := '''', s_is_logged_in := True\<rparr>,
            [PersistWriteString PERSIST_KEY_TOKEN '''',
             PersistWriteString PERSIST_KEY_USERNAME '''',
             PersistWriteString PERSIST_KEY_APPLE_ID '''',
             PersistWriteString PERSIST_KEY_APPLE_PASSWORD '''',
             SettingsWindowRemove,
             OutboxSend (empty_dict\<lparr>KEY_CMD := Some CMD_GET_LISTS, KEY_TOKEN := Some ''''\<rparr>)])
   \<and> s_is_logged_in (load_settings [PERSIST_KEY_TOKEN \<mapsto> ''''] initial_state) = False"
  by (simp add: callback_defs login_message_def empty_dict_def consts_defs initial_state_def load_settings_def
      persist_read_string_def)

text \<open>
  C4 (as amended). A GetLists outcome with a status field other than ERROR and a count
  above MAX_LISTS leaves the stored lists count at MAX_LISTS; likewise a GetReminders
  outcome and MAX_REMINDERS. The message's slot index, if it has one, is not negative.
\<close>

theorem count_clamped:
  assumes "KEY_STATUS m = Some st" and "st \<noteq> STATUS_ERROR"
    and "KEY_COUNT m = Some c" and "nonnegative_slot m"
  shows "(KEY_CMD m = Some CMD_GET_LISTS \<and> MAX_LISTS <s c \<longrightarrow>
            (\<exists>s' es. inbox_received_callback m s = Inr (s', es) \<and> s_list_count s' = MAX_LISTS))
       \<and> (KEY_CMD m = Some CMD_GET_REMINDERS \<and> MAX_REMINDERS <s c \<longrightarrow>
            (\<exists>s' es. inbox_received_callback m s = Inr (s', es)
               \<and> s_reminder_count s' = MAX_REMINDERS))"
proof (intro conjI impI)
  assume a: "KEY_CMD m = Some CMD_GET_LISTS \<and> MAX_LISTS <s c"
  let ?s1 = "s\<lparr>s_list_count := MAX_LISTS\<rparr>"
  from a assms have sw: "inbox_switch m CMD_GET_LISTS st s = Inr (?s1, [MenuReloadLists])"
    by (simp add: inbox_switch_def consts_defs)
  from inbox_slot_returns [OF assms(4)] obtain s' es where sl: "inbox_slot m ?s1 = Inr (s', es)"
    by blast
  from inbox_slot_frame [OF sl] have "s_list_count s' = MAX_LISTS" by simp
  with a assms sw sl
  show "\<exists>s' es. inbox_received_callback m s = Inr (s', es) \<and> s_list_count s' = MAX_LISTS"
    by (simp add: inbox_received_callback_def)
next
  assume a: "KEY_CMD m = Some CMD_GET_REMINDERS \<and> MAX_REMINDERS <s c"
  let ?s1 = "s\<lparr>s_reminder_count := MAX_REMINDERS\<rparr>"
  from a assms obtain es1 where sw: "inbox_switch m CMD_GET_REMINDERS st s = Inr (?s1, es1)"
    by (simp add: inbox_switch_def consts_defs)
  from inbox_slot_returns [OF assms(4)] obtain s' es where sl: "inbox_slot m ?s1 = Inr (s', es)"
    by blast
  from inbox_slot_frame [OF sl] have "s_reminder_count s' = MAX_REMINDERS" by simp
  with a assms sw sl
  show "\<exists>s' es. inbox_received_callback m s = Inr (s', es) \<and> s_reminder_count s' = MAX_REMINDERS"
    by (simp add: inbox_received_callback_def)
qed

text \<open>
  An instance: a GetLists outcome reporting 25 lists and a GetReminders outcome
  reporting 60 reminders.
\<close>

theorem count_clamped_witness:
  "KEY_STATUS (lists_count_message 25) = Some STATUS_SUCCESS
   \<and> STATUS_SUCCESS \<noteq> STATUS_ERROR
   \<and> KEY_COUNT (lists_count_message 25) = Some 25
   \<and> nonnegative_slot (lists_count_message 25)
   \<and> KEY_CMD (lists_count_message 25) = Some CMD_GET_LISTS \<and> MAX_LISTS <s 25
   \<and> inbox_received_callback (lists_count_message 25) example_state
       = Inr (example_state\<lparr>s_list_count := 20\<rparr>, [MenuReloadLists])
   \<and> KEY_STATUS (reminders_count_message 60) = Some STATUS_SUCCESS
   \<and> KEY_COUNT (reminders_count_message 60) = Some 60
   \<and> nonnegative_slot (reminders_count_message 60)
   \<and> KEY_CMD (reminders_count_message 60) = Some CMD_GET_REMINDERS \<and> MAX_REMINDERS <s 60
   \<and> inbox_received_callback (reminders_count_message 60) example_state
       = Inr (example_state\<lparr>s_reminder_count := 50\<rparr>, [])"
proof -
  have h: "KEY_STATUS (lists_count_message 25) = Some STATUS_SUCCESS"
    "STATUS_SUCCESS \<noteq> STATUS_ERROR"
    "KEY_COUNT (lists_count_message 25) = Some 25"
    "nonnegative_slot (lists_count_message 25)"
    by (simp_all add: lists_count_message_def empty_dict_def consts_defs nonnegative_slot_def)
  have c: "KEY_CMD (lists_count_message 25) = Some CMD_GET_LISTS \<and> MAX_LISTS <s 25"
    by (simp add: lists_count_message_def empty_dict_def consts_defs word_sless_alt)
  have run: "inbox_received_callback (lists_count_message 25) example_state
       = Inr (example_state\<lparr>s_list_count := 20\<rparr>, [MenuReloadLists])"
    by (simp add: callback_defs lists_count_message_def empty_dict_def consts_defs word_sless_alt)
  have hr: "KEY_STATUS (reminders_count_message 60) = Some STATUS_SUCCESS"
    "STATUS_SUCCESS \<noteq> STATUS_ERROR"
    "KEY_COUNT (reminders_count_message 60) = Some 60"
    "nonnegative_slot (reminders_count_message 60)"
    by (simp_all add: reminders_count_message_def empty_dict_def consts_defs nonnegative_slot_def)
  have cr: "KEY_CMD (reminders_count_message 60) = Some CMD_GET_REMINDERS \<and> MAX_REMINDERS <s 60"
    by (simp add: reminders_count_message_def empty_dict_def consts_defs word_sless_alt)
  have runr: "inbox_received_callback (reminders_count_message 60) example_state
       = Inr (example_state\<lparr>s_reminder_count := 50\<rparr>, [])"
    by (simp add: callback_defs reminders_count_message_def empty_dict_def consts_defs
        word_sless_alt example_state_def initial_state_def)
  from count_clamped [OF h, of example_state, THEN conjunct1, THEN mp, OF c]
    count_clamped [OF hr, of example_state, THEN conjunct2, THEN mp, OF cr]
    h c run hr cr runr
  show ?thesis by simp
qed

text \<open>
  As first stated the claim holds of every GetLists outcome that carries a count above
  the capacity. One with status ERROR reporting 25 lists leaves the stored count at 3.
\<close>

theorem error_outcome_count_not_stored:
  "inbox_received_callback (with_outcome CMD_GET_LISTS STATUS_ERROR (lists_count_message 25))
       example_state
     = Inr (example_state,
            [AppLogError ''Error: Unknown error'', ErrorWindowPush ''Error: Unknown error''])
   \<and> s_list_count example_state = 3"
  by (simp add: inbox_received_callback_def inbox_error_def snprintf_s_def Let_def with_outcome_def lists_count_message_def empty_dict_def
      consts_defs example_state_def)

text \<open>
  C5 (as amended). A Login outcome with a status other than ERROR and a token field
  stores the first 255 characters of the token as the session token (the whole token
  when it has at most 255 characters) and sets the logged-in flag; the calls it makes
  are, in this order, the four writes of the settings, the removal of the settings
  window and the sending of a GetLists request that carries the stored token, before
  anything the slot update adds. The message's slot index, if it has one, is not
  negative.
\<close>

theorem login_stores_token:
  assumes "KEY_CMD m = Some CMD_LOGIN" and "KEY_STATUS m = Some st" and "st \<noteq> STATUS_ERROR"
    and "KEY_TOKEN m = Some tok" and "nonnegative_slot m"
  shows "\<exists>s' es. inbox_received_callback m s =
             Inr (s', [PersistWriteString PERSIST_KEY_TOKEN (take 255 tok),
                       PersistWriteString PERSIST_KEY_USERNAME (s_username s),
                       PersistWriteString PERSIST_KEY_APPLE_ID (s_apple_id s),
                       PersistWriteString PERSIST_KEY_APPLE_PASSWORD (s_apple_password s),
                       SettingsWindowRemove,
                       OutboxSend (empty_dict\<lparr>KEY_CMD := Some CMD_GET_LISTS,
                         KEY_TOKEN := Some (take 255 tok)\<rparr>)] @ es)
           \<and> s_token s' = take 255 tok \<and> s_is_logged_in s'
           \<and> (length tok \<le> 255 \<longrightarrow> s_token s' = tok)"
proof -
  let ?s1 = "s\<lparr>s_token := take 255 tok, s_is_logged_in := True\<rparr>"
  from inbox_slot_returns [OF assms(5)] obtain s' es where sl: "inbox_slot m ?s1 = Inr (s', es)"
    by blast
  from inbox_slot_frame [OF sl] have "s_token s' = take 255 tok" "s_is_logged_in s'"
    by simp_all
  with assms(1-3) login_switch [OF assms(4), of st s] sl show ?thesis
    by (simp add: inbox_received_callback_def)
qed

text \<open>
  An instance: the token \<open>abc123\<close> on the initial state.
\<close>

theorem login_stores_token_witness:
  "KEY_CMD (login_message ''abc123'') = Some CMD_LOGIN
   \<and> KEY_STATUS (login_message ''abc123'') = Some STATUS_SUCCESS
   \<and> STATUS_SUCCESS \<noteq> STATUS_ERROR
   \<and> KEY_TOKEN (login_message ''abc123'') = Some ''abc123''
   \<and> nonnegative_slot (login_message ''abc123'')
   \<and> length ''abc123'' \<le> 255
   \<and> inbox_received_callback (login_message ''abc123'') initial_state
       = Inr (initial_state\<lparr>s_token := ''abc123'', s_is_logged_in := True\<rparr>,
              [PersistWriteString PERSIST_KEY_TOKEN ''abc123'',
               PersistWriteString PERSIST_KEY_USERNAME '''',
               PersistWriteString PERSIST_KEY_APPLE_ID '''',
               PersistWriteString PERSIST_KEY_APPLE_PASSWORD '''',
               SettingsWindowRemove,
               OutboxSend (empty_dict\<lparr>KEY_CMD := Some CMD_GET_LISTS,
                 KEY_TOKEN := Some ''abc123''\<rparr>)])"
proof -
  let ?m = "login_message ''abc123''"
  have h: "KEY_CMD ?m = Some CMD_LOGIN" "KEY_STATUS ?m = Some STATUS_SUCCESS"
    "STATUS_SUCCESS \<noteq> STATUS_ERROR" "KEY_TOKEN ?m = Some ''abc123''" "nonnegative_slot ?m"
    by (simp_all add: login_message_def empty_dict_def consts_defs nonnegative_slot_def)
  have slot: "inbox_slot ?m s = Inr (s, [])" for s
    by (simp add: inbox_slot_def login_message_def empty_dict_def)
  from login_stores_token [OF h, of initial_state] obtain s' es where
    r: "inbox_received_callback ?m initial_state =
          Inr (s', [PersistWriteString PERSIST_KEY_TOKEN (take 255 ''abc123''),
                    PersistWriteString PERSIST_KEY_USERNAME (s_username initial_state),
                    PersistWriteString PERSIST_KEY_APPLE_ID (s_apple_id initial_state),
                    PersistWriteString PERSIST_KEY_APPLE_PASSWORD (s_apple_password initial_state),
                    SettingsWindowRemove,
                    OutboxSend (empty_dict\<lparr>KEY_CMD := Some CMD_GET_LISTS,
                      KEY_TOKEN := Some (take 255 ''abc123'')\<rparr>)] @ es)"
    by blast
  have run: "inbox_received_callback ?m initial_state
       = Inr (initial_state\<lparr>s_token := ''abc123'', s_is_logged_in := True\<rparr>,
              [PersistWriteString PERSIST_KEY_TOKEN ''abc123'',
               PersistWriteString PERSIST_KEY_USERNAME '''',
               PersistWriteString PERSIST_KEY_APPLE_ID '''',
               PersistWriteString PERSIST_KEY_APPLE_PASSWORD '''',
               SettingsWindowRemove,
               OutboxSend (empty_dict\<lparr>KEY_CMD := Some CMD_GET_LISTS,
                 KEY_TOKEN := Some ''abc123''\<rparr>)])"
    using h(1,2,4) login_switch [OF h(4), of STATUS_SUCCESS initial_state] slot
    by (simp add: inbox_received_callback_def consts_defs initial_state_def)
  from r run h show ?thesis by simp
qed

text \<open>
  As first stated the claim has the received token stored. A token of 256 characters
  is stored, saved and sent without its last character.
\<close>

theorem login_long_token_cut:
  "length long_token = 256
   \<and> inbox_received_callback (login_message long_token) initial_state
       = Inr (initial_state\<lparr>s_token := replicate 255 (CHR ''x''), s_is_logged_in := True\<rparr>,
              [PersistWriteString PERSIST_KEY_TOKEN (replicate 255 (CHR ''x'')),
               PersistWriteString PERSIST_KEY_USERNAME '''',
               PersistWriteString PERSIST_KEY_APPLE_ID '''',
               PersistWriteString PERSIST_KEY_APPLE_PASSWORD '''',
               SettingsWindowRemove,
               OutboxSend (empty_dict\<lparr>KEY_CMD := Some CMD_GET_LISTS,
                 KEY_TOKEN := Some (replicate 255 (CHR ''x''))\<rparr>)])
   \<and> replicate 255 (CHR ''x'') \<noteq> long_token"
proof -
  have tok: "KEY_TOKEN (login_message long_token) = Some long_token"
    by (simp add: login_message_def empty_dict_def)
  have slot: "inbox_slot (login_message long_token) s = Inr (s, [])" for s
    by (simp add: inbox_slot_def login_message_def empty_dict_def)
  have cut: "take 255 long_token = replicate 255 (CHR ''x'')"
    by (simp add: long_token_def)
  have "inbox_received_callback (login_message long_token) initial_state
       = Inr (initial_state\<lparr>s_token := replicate 255 (CHR ''x''), s_is_logged_in := True\<rparr>,
              [PersistWriteString PERSIST_KEY_TOKEN (replicate 255 (CHR ''x'')),
               PersistWriteString PERSIST_KEY_USERNAME '''',
               PersistWriteString PERSIST_KEY_APPLE_ID '''',
               PersistWriteString PERSIST_KEY_APPLE_PASSWORD '''',
               SettingsWindowRemove,
               OutboxSend (empty_dict\<lparr>KEY_CMD := Some CMD_GET_LISTS,
                 KEY_TOKEN := Some (replicate 255 (CHR ''x''))\<rparr>)])"
    using login_switch [OF tok, of STATUS_SUCCESS initial_state] slot cut
    by (simp add: inbox_received_callback_def consts_defs initial_state_def login_message_def
        empty_dict_def)
  then show ?thesis by (simp add: long_token_def)
qed

text \<open>
  C6. A GetLists or GetReminders outcome with no slot-index field returns normally and
  leaves both tables, the token, the logged-in flag and both selection cursors as they
  were; of the two counts only the one of the outcome's own table can change.
\<close>

theorem count_outcome_frame:
  assumes "KEY_CMD m = Some CMD_GET_LISTS \<or> KEY_CMD m = Some CMD_GET_REMINDERS"
    and "KEY_REMINDER_INDEX m = None"
  shows "\<exists>s' es. inbox_received_callback m s = Inr (s', es)
           \<and> s_lists s' = s_lists s \<and> s_reminders s' = s_reminders s
           \<and> s_token s' = s_token s \<and> s_is_logged_in s' = s_is_logged_in s
           \<and> s_current_list_index s' = s_current_list_index s
           \<and> s_current_reminder_index s' = s_current_reminder_index s
           \<and> (KEY_CMD m = Some CMD_GET_LISTS \<longrightarrow> s_reminder_count s' = s_reminder_count s)
           \<and> (KEY_CMD m = Some CMD_GET_REMINDERS \<longrightarrow> s_list_count s' = s_list_count s)"
  using assms
  by (auto simp: inbox_received_callback_def inbox_switch_def inbox_slot_no_index consts_defs Let_def
      split: option.splits)

text \<open>
  An instance: a GetLists outcome reporting two lists where three are stored, and a
  GetReminders outcome reporting one reminder where two are stored; the slots beyond
  the new counts keep their contents.
\<close>

theorem count_outcome_frame_witness:
  "(KEY_CMD (lists_count_message 2) = Some CMD_GET_LISTS
      \<or> KEY_CMD (lists_count_message 2) = Some CMD_GET_REMINDERS)
   \<and> KEY_REMINDER_INDEX (lists_count_message 2) = None
   \<and> inbox_received_callback (lists_count_message 2) example_state
       = Inr (example_state\<lparr>s_list_count := 2\<rparr>, [MenuReloadLists])
   \<and> s_lists (example_state\<lparr>s_list_count := 2\<rparr>) ! 2
       = \<lparr>list_id_of = ''L3'', list_title_of = ''Shop''\<rparr>
   \<and> (KEY_CMD (reminders_count_message 1) = Some CMD_GET_LISTS
      \<or> KEY_CMD (reminders_count_message 1) = Some CMD_GET_REMINDERS)
   \<and> KEY_REMINDER_INDEX (reminders_count_message 1) = None
   \<and> inbox_received_callback (reminders_count_message 1) example_state
       = Inr (example_state\<lparr>s_reminder_count := 1\<rparr>, [])
   \<and> s_reminders (example_state\<lparr>s_reminder_count := 1\<rparr>) ! 1
       = \<lparr>reminder_id_of = ''R2'', reminder_title_of = ''Eggs'',
          reminder_list_id_of = ''L3'', completed = False\<rparr>"
proof -
  have h1: "KEY_CMD (lists_count_message 2) = Some CMD_GET_LISTS
      \<or> KEY_CMD (lists_count_message 2) = Some CMD_GET_REMINDERS"
    by (simp add: lists_count_message_def empty_dict_def)
  have h2: "KEY_REMINDER_INDEX (lists_count_message 2) = None"
    by (simp add: lists_count_message_def empty_dict_def)
  have run: "inbox_received_callback (lists_count_message 2) example_state
       = Inr (example_state\<lparr>s_list_count := 2\<rparr>, [MenuReloadLists])"
    by (simp add: callback_defs lists_count_message_def empty_dict_def consts_defs)
  have old: "s_lists (example_state\<lparr>s_list_count := 2\<rparr>) ! 2
       = \<lparr>list_id_of = ''L3'', list_title_of = ''Shop''\<rparr>"
    by (simp add: example_state_def initial_state_def)
  have r1: "KEY_CMD (reminders_count_message 1) = Some CMD_GET_LISTS
      \<or> KEY_CMD (reminders_count_message 1) = Some CMD_GET_REMINDERS"
    by (simp add: reminders_count_message_def empty_dict_def)
  have r2: "KEY_REMINDER_INDEX (reminders_count_message 1) = None"
    by (simp add: reminders_count_message_def empty_dict_def)
  have runr: "inbox_received_callback (reminders_count_message 1) example_state
       = Inr (example_state\<lparr>s_reminder_count := 1\<rparr>, [])"
    by (simp add: callback_defs reminders_count_message_def empty_dict_def consts_defs
        word_sless_alt example_state_def initial_state_def)
  have oldr: "s_reminders (example_state\<lparr>s_reminder_count := 1\<rparr>) ! 1
       = \<lparr>reminder_id_of = ''R2'', reminder_title_of = ''Eggs'',
          reminder_list_id_of = ''L3'', completed = False\<rparr>"
    by (simp add: example_state_def initial_state_def)
  from count_outcome_frame [OF h1 h2, of example_state]
    count_outcome_frame [OF r1 r2, of example_state]
    run old h1 h2 runr oldr r1 r2
  show ?thesis by simp
qed







text \<open>
  C9 (as amended). A message with a command field and no status field is processed
  exactly as the same message with status ERROR: the state is as it was, also when the
  message carries a fragment, and the error text is logged and shown with the prefix,
  the shown text cut to 127 characters. The text is the message's error field when it
  has one, and the default only when it has none.
\<close>

theorem missing_status_is_error:
  assumes "KEY_CMD m = Some c" and "KEY_STATUS m = None"
  shows "inbox_received_callback m s
           = inbox_received_callback (m\<lparr>KEY_STATUS := Some STATUS_ERROR\<rparr>) s
       \<and> inbox_received_callback m s
           = Inr (s, [AppLogError (''Error: '' @ error_text m),
                      ErrorWindowPush (take 127 (''Error: '' @ error_text m))])
       \<and> (KEY_ERROR m = None \<longrightarrow> error_text m = ''Unknown error'')
       \<and> (\<forall>e. KEY_ERROR m = Some e \<longrightarrow> error_text m = e)"
  using assms
  by (simp add: inbox_received_callback_def inbox_error_def error_text_def snprintf_s_def Let_def)

text \<open>
  An instance: a list fragment with a command field and no status, without and with an
  error field.
\<close>

theorem missing_status_is_error_witness:
  "KEY_CMD ((list_fragment 0 ''L9'' ''Errands'')\<lparr>KEY_CMD := Some CMD_GET_LISTS\<rparr>)
     = Some CMD_GET_LISTS
   \<and> KEY_STATUS ((list_fragment 0 ''L9'' ''Errands'')\<lparr>KEY_CMD := Some CMD_GET_LISTS\<rparr>) = None
   \<and> KEY_ERROR ((list_fragment 0 ''L9'' ''Errands'')\<lparr>KEY_CMD := Some CMD_GET_LISTS\<rparr>) = None
   \<and> inbox_received_callback
       ((list_fragment 0 ''L9'' ''Errands'')\<lparr>KEY_CMD := Some CMD_GET_LISTS\<rparr>) example_state
     = Inr (example_state,
            [AppLogError ''Error: Unknown error'', ErrorWindowPush ''Error: Unknown error''])
   \<and> KEY_ERROR ((list_fragment 0 ''L9'' ''Errands'')\<lparr>KEY_CMD := Some CMD_GET_LISTS,
         KEY_ERROR := Some ''Busy''\<rparr>) = Some ''Busy''
   \<and> inbox_received_callback
       ((list_fragment 0 ''L9'' ''Errands'')\<lparr>KEY_CMD := Some CMD_GET_LISTS,
         KEY_ERROR := Some ''Busy''\<rparr>) example_state
     = Inr (example_state, [AppLogError ''Error: Busy'', ErrorWindowPush ''Error: Busy''])"
proof -
  let ?m = "(list_fragment 0 ''L9'' ''Errands'')\<lparr>KEY_CMD := Some CMD_GET_LISTS\<rparr>"
  let ?b = "(list_fragment 0 ''L9'' ''Errands'')\<lparr>KEY_CMD := Some CMD_GET_LISTS,
         KEY_ERROR := Some ''Busy''\<rparr>"
  have h: "KEY_CMD ?m = Some CMD_GET_LISTS" "KEY_STATUS ?m = None"
    by (simp_all add: list_fragment_def empty_dict_def)
  have e: "KEY_ERROR ?m = None" by (simp add: list_fragment_def empty_dict_def)
  have hb: "KEY_CMD ?b = Some CMD_GET_LISTS" "KEY_STATUS ?b = None"
    by (simp_all add: list_fragment_def empty_dict_def)
  have eb: "KEY_ERROR ?b = Some ''Busy''" by (simp add: list_fragment_def empty_dict_def)
  from missing_status_is_error [OF h, of example_state, THEN conjunct2] e
  have a: "inbox_received_callback ?m example_state
     = Inr (example_state,
            [AppLogError ''Error: Unknown error'', ErrorWindowPush ''Error: Unknown error''])"
    by simp
  from missing_status_is_error [OF hb, of example_state, THEN conjunct2] eb
  have b: "inbox_received_callback ?b example_state
     = Inr (example_state, [AppLogError ''Error: Busy'', ErrorWindowPush ''Error: Busy''])"
    by simp
  from h e a eb b show ?thesis by simp
qed

text \<open>
  As first stated the claim has the default text shown for every such message. A
  message with a command field, no status and an error field shows the error field.
\<close>

theorem missing_status_shows_error_field:
  "inbox_received_callback (empty_dict\<lparr>KEY_CMD := Some CMD_GET_LISTS,
       KEY_ERROR := Some ''Session expired''\<rparr>) example_state
     = Inr (example_state,
            [AppLogError ''Error: Session expired'', ErrorWindowPush ''Error: Session expired''])"
  by (simp add: inbox_received_callback_def inbox_error_def snprintf_s_def empty_dict_def Let_def)

text \<open>
  C10. A list fragment with slot index -1 under a GetLists outcome with status SUCCESS:
  the index passes the test against MAX_LISTS, which has no lower bound, and the store
  goes outside the table.
\<close>

theorem negative_slot_index_faults:
  "\<not> 0 <=s (- 1 :: int32)
   \<and> inbox_received_callback
       (with_outcome CMD_GET_LISTS STATUS_SUCCESS (list_fragment (- 1) ''L9'' ''Errands''))
       example_state
     = Inl OutOfBoundsWrite"
  by (simp add: callback_defs list_fragment_def with_outcome_def empty_dict_def consts_defs word_sle_eq word_sless_alt)

end
